theory Spec2Isabelle
  imports Complex_Main
begin

section \<open>Python values and exceptions\<close>

text \<open>
  The bot handles untyped Python data: the decoded JSON body of the provider's answer,
  and the value \<^verbatim>\<open>get_weather\<close> returns (a \<^verbatim>\<open>str\<close> or a \<^verbatim>\<open>dict\<close>).  Both are
  values of one datatype.  A \<^verbatim>\<open>dict\<close> is an association list read with \<open>map_of\<close>;
  JSON object keys are strings.  Floats are the finite ones, as reals.  A \<^verbatim>\<open>str\<close> is held
  as the bytes of its UTF-8 encoding, so a character is one byte when it is ASCII and a
  lead byte with its continuation bytes otherwise.
\<close>

datatype pyval =
    PNone
  | PBool bool
  | PInt int
  | PFloat real
  | PStr string
  | PList "pyval list"
  | PDict "(string \<times> pyval) list"

text \<open>
  The exception classes that occur.  The first four are subclasses of
  \<^verbatim>\<open>requests.exceptions.RequestException\<close>; \<^verbatim>\<open>InvalidJSONError\<close> is what
  \<^verbatim>\<open>response.json()\<close> raises in current releases of the HTTP library, \<^verbatim>\<open>ValueError\<close>
  what it raised in older ones.
\<close>

datatype exn =
    ConnectionError
  | Timeout
  | HTTPError nat
  | InvalidJSONError
  | ValueError
  | KeyError pyval
  | IndexError
  | TypeError
  | AttributeError
  | OverflowError
  | FileNotFoundError string
  | TelegramError
  | PlotError

fun is_RequestException :: "exn \<Rightarrow> bool" where
  "is_RequestException ConnectionError = True"
| "is_RequestException Timeout = True"
| "is_RequestException (HTTPError code) = True"
| "is_RequestException InvalidJSONError = True"
| "is_RequestException other = False"

text \<open>Sequencing of operations that may raise: the first exception ends the sequence.\<close>

definition thn :: "exn + 'a \<Rightarrow> ('a \<Rightarrow> exn + 'b) \<Rightarrow> exn + 'b" where
  "thn r f = (case r of Inl e \<Rightarrow> Inl e | Inr x \<Rightarrow> f x)"

subsection \<open>Operators of the language\<close>

text \<open>Truth value of an object, as \<^verbatim>\<open>not x\<close> and \<^verbatim>\<open>if x\<close> test it.\<close>

fun truthy :: "pyval \<Rightarrow> bool" where
  "truthy PNone = False"
| "truthy (PBool b) = b"
| "truthy (PInt i) = (i \<noteq> 0)"
| "truthy (PFloat r) = (r \<noteq> 0)"
| "truthy (PStr s) = (s \<noteq> [])"
| "truthy (PList xs) = (xs \<noteq> [])"
| "truthy (PDict kvs) = (kvs \<noteq> [])"

fun isinstance_str :: "pyval \<Rightarrow> bool" where
  "isinstance_str (PStr s) = True"
| "isinstance_str v = False"

text \<open>
  \<^verbatim>\<open>v == n\<close> for an integer literal \<open>n\<close>: numbers compare by value across \<^verbatim>\<open>int\<close>,
  \<^verbatim>\<open>float\<close> and \<^verbatim>\<open>bool\<close>; a value of any other type is never equal to a number.
\<close>

fun py_eq_int :: "pyval \<Rightarrow> int \<Rightarrow> bool" where
  "py_eq_int (PInt i) n = (i = n)"
| "py_eq_int (PFloat r) n = (r = of_int n)"
| "py_eq_int (PBool b) n = ((if b then 1 else 0) = n)"
| "py_eq_int v n = False"

definition py_ne_int :: "pyval \<Rightarrow> int \<Rightarrow> bool" where
  "py_ne_int v n = (\<not> py_eq_int v n)"

text \<open>\<^verbatim>\<open>d.get(k)\<close>: only a \<^verbatim>\<open>dict\<close> has the method; a missing key gives \<^verbatim>\<open>None\<close>.\<close>

fun dict_get :: "pyval \<Rightarrow> string \<Rightarrow> exn + pyval" where
  "dict_get (PDict kvs) k = Inr (case map_of kvs k of None \<Rightarrow> PNone | Some v \<Rightarrow> v)"
| "dict_get v k = Inl AttributeError"

text \<open>\<^verbatim>\<open>v[k]\<close> with a string key \<open>k\<close>.\<close>

fun getitem_str :: "pyval \<Rightarrow> string \<Rightarrow> exn + pyval" where
  "getitem_str (PDict kvs) k =
     (case map_of kvs k of None \<Rightarrow> Inl (KeyError (PStr k)) | Some v \<Rightarrow> Inr v)"
| "getitem_str v k = Inl TypeError"

text \<open>
  \<^verbatim>\<open>v[i]\<close> with an integer \<open>i\<close>: lists and strings are indexed, negative indices from
  the end; a decoded JSON object has no integer key.  A string is indexed by character:
  \<open>characters\<close> cuts the bytes into the characters they encode.
\<close>

definition continuation :: "char \<Rightarrow> bool" where
  "continuation c = (digit7 c \<and> \<not> digit6 c)"

fun characters :: "string \<Rightarrow> string list" where
  "characters [] = []"
| "characters (c # cs) =
     (case (cs, characters cs) of
        (d # ds, g # gs) \<Rightarrow> if continuation d then (c # g) # gs else [c] # g # gs
      | _ \<Rightarrow> [[c]])"

definition seq_index :: "'a list \<Rightarrow> int \<Rightarrow> exn + 'a" where
  "seq_index xs i =
     (let j = (if i < 0 then i + int (length xs) else i)
      in if 0 \<le> j \<and> j < int (length xs) then Inr (xs ! nat j) else Inl IndexError)"

fun getitem_int :: "pyval \<Rightarrow> int \<Rightarrow> exn + pyval" where
  "getitem_int (PList xs) i = seq_index xs i"
| "getitem_int (PStr s) i = thn (seq_index (characters s) i) (\<lambda>c. Inr (PStr c))"
| "getitem_int (PDict kvs) i = Inl (KeyError (PInt i))"
| "getitem_int v i = Inl TypeError"

text \<open>
  \<^verbatim>\<open>str.capitalize()\<close>: the first character in upper case, the rest in lower case.  On
  ASCII text this is computed here, letter by letter.  On text with characters beyond
  ASCII the interpreter goes by the case mappings of the Unicode database, which are not
  part of the program: they are a parameter, \<open>unicode\<close>, giving the capitalized string.
\<close>

definition ascii_lowercase :: string where
  "ascii_lowercase = ''abcdefghijklmnopqrstuvwxyz''"

definition ascii_uppercase :: string where
  "ascii_uppercase = ''ABCDEFGHIJKLMNOPQRSTUVWXYZ''"

definition upper_char :: "char \<Rightarrow> char" where
  "upper_char c =
     (case map_of (zip ascii_lowercase ascii_uppercase) c of None \<Rightarrow> c | Some u \<Rightarrow> u)"

definition lower_char :: "char \<Rightarrow> char" where
  "lower_char c =
     (case map_of (zip ascii_uppercase ascii_lowercase) c of None \<Rightarrow> c | Some l \<Rightarrow> l)"

definition is_ascii :: "string \<Rightarrow> bool" where
  "is_ascii s = list_all (\<lambda>c. \<not> digit7 c) s"

fun capitalize_ascii :: "string \<Rightarrow> string" where
  "capitalize_ascii [] = []"
| "capitalize_ascii (c # cs) = upper_char c # map lower_char cs"

definition capitalize :: "(string \<Rightarrow> string) \<Rightarrow> string \<Rightarrow> string" where
  "capitalize unicode s = (if is_ascii s then capitalize_ascii s else unicode s)"

fun capitalize_method :: "(string \<Rightarrow> string) \<Rightarrow> pyval \<Rightarrow> exn + pyval" where
  "capitalize_method unicode (PStr s) = Inr (PStr (capitalize unicode s))"
| "capitalize_method unicode v = Inl AttributeError"

text \<open>A value inside an f-string; the location and the API key are \<^verbatim>\<open>str\<close> or \<^verbatim>\<open>None\<close>.\<close>

fun fstr :: "string option \<Rightarrow> string" where
  "fstr None = ''None''"
| "fstr (Some s) = s"

section \<open>The world outside the program\<close>

text \<open>
  What the HTTP library hands back: a response with its status code and the outcome of
  decoding its body as JSON (\<^verbatim>\<open>response.json()\<close> raises on a body that is not JSON).
\<close>

record response =
  status_code :: nat
  json :: "exn + pyval"

text \<open>
  \<^verbatim>\<open>response.raise_for_status()\<close> of the HTTP library raises \<^verbatim>\<open>HTTPError\<close> for the
  client-error and server-error codes, 400 to 599, and returns for every other code.
\<close>

definition raise_for_status :: "response \<Rightarrow> exn + unit" where
  "raise_for_status r =
     (if 400 \<le> status_code r \<and> status_code r < 600 then Inl (HTTPError (status_code r))
      else Inr ())"

text \<open>
  A bar chart as the program describes it to the plotting library: figure size, the bars
  (label, height, colour), title and axis label.  A file holds a saved chart or other bytes.
\<close>

record chart =
  figsize :: "real \<times> real"
  bars :: "(string \<times> pyval \<times> string) list"
  title :: string
  ylabel :: string

datatype file_content = Png chart | Bytes string

text \<open>What the bot sends to a chat: a text (whatever object was passed) or a photo.\<close>

datatype reply = Text int pyval | Photo int file_content

datatype log_entry =
    Fetching "string option"
  | FetchFailed "string option" pyval
  | WeatherData "string option" pyval
  | RequestError exn
  | UnexpectedError exn

text \<open>
  The configuration read at start-up (an unset environment variable is \<^verbatim>\<open>None\<close>) and
  the behaviour of the services the program calls:
  \<^item> \<open>requests_get\<close>: the outcome of \<^verbatim>\<open>requests.get(url)\<close>, an exception or a response;
  \<^item> \<open>unicode_capitalize\<close>: the interpreter's capitalization of text beyond ASCII;
  \<^item> \<open>bar_rejects\<close>: whether the plotting library raises on these bar heights;
  \<^item> \<open>savefig_rejects\<close>: whether the plotting library raises when it renders this figure
    and writes it to this path;
  \<^item> \<open>telegram_rejects\<close>: whether the chat service fails to deliver a reply.
  Nothing is assumed about what the two libraries and the chat service accept.
\<close>

record env =
  WEATHER_API_KEY :: "string option"
  DEFAULT_LOCATION :: "string option"
  requests_get :: "string \<Rightarrow> exn + response"
  unicode_capitalize :: "string \<Rightarrow> string"
  bar_rejects :: "pyval list \<Rightarrow> exn option"
  savefig_rejects :: "string \<Rightarrow> chart \<Rightarrow> exn option"
  telegram_rejects :: "reply \<Rightarrow> exn option"

text \<open>
  The state the program acts on: the files of the working directory, the plotting
  library's open figures (the current one first), the replies delivered, the URLs
  requested and the log, the last three oldest first.
\<close>

record world =
  files :: "string \<Rightarrow> file_content option"
  figures :: "chart list"
  sent :: "reply list"
  fetched :: "string list"
  logged :: "log_entry list"

text \<open>
  A statement runs in a world and ends with a value or a raised exception, in a new
  world.  \<open>and_then\<close> is sequencing, \<open>try_except\<close> a \<^verbatim>\<open>try\<close> block with its handler.
\<close>

type_synonym 'a io = "world \<Rightarrow> (exn + 'a) \<times> world"

definition ret :: "'a \<Rightarrow> 'a io" where
  "ret x w = (Inr x, w)"

definition pure :: "exn + 'a \<Rightarrow> 'a io" where
  "pure r w = (r, w)"

definition and_then :: "'a io \<Rightarrow> ('a \<Rightarrow> 'b io) \<Rightarrow> 'b io" where
  "and_then m f w = (case m w of (Inl e, w') \<Rightarrow> (Inl e, w') | (Inr x, w') \<Rightarrow> f x w')"

definition try_except :: "'a io \<Rightarrow> (exn \<Rightarrow> 'a io) \<Rightarrow> 'a io" where
  "try_except m handler w =
     (case m w of (Inl e, w') \<Rightarrow> handler e w' | (Inr x, w') \<Rightarrow> (Inr x, w'))"

definition logging :: "log_entry \<Rightarrow> unit io" where
  "logging l w = (Inr (), w\<lparr>logged := logged w @ [l]\<rparr>)"

definition http_get :: "env \<Rightarrow> string \<Rightarrow> response io" where
  "http_get E url w = (requests_get E url, w\<lparr>fetched := fetched w @ [url]\<rparr>)"

section \<open>Fetching the weather\<close>

definition weather_url :: "env \<Rightarrow> string option \<Rightarrow> string" where
  "weather_url E city =
     ''http://api.openweathermap.org/data/2.5/weather?q='' @ fstr city
       @ ''&appid='' @ fstr (WEATHER_API_KEY E) @ ''&units=metric''"

definition invalid_location_message :: "string option \<Rightarrow> string" where
  "invalid_location_message city =
     ''Unable to fetch weather for '' @ fstr city
       @ ''. Please check the city name and try again.''"

definition network_message :: string where
  "network_message =
     ''Unable to fetch weather due to a network issue. Please try again later.''"

definition unexpected_message :: string where
  "unexpected_message = ''An unexpected error occurred. Please try again later.''"

definition get_weather :: "env \<Rightarrow> string option \<Rightarrow> pyval io" where
  "get_weather E city =
     try_except
       (and_then (logging (Fetching city)) (\<lambda>_.
        and_then (http_get E (weather_url E city)) (\<lambda>response.
        and_then (pure (raise_for_status response)) (\<lambda>_.
        and_then (pure (json response)) (\<lambda>data.
        and_then (pure (dict_get data ''cod'')) (\<lambda>cod.
          if py_ne_int cod 200 then
            and_then (pure (dict_get data ''message'')) (\<lambda>message.
            and_then (logging (FetchFailed city message)) (\<lambda>_.
            ret (PStr (invalid_location_message city))))
          else
            and_then (pure
              (thn (getitem_str data ''weather'') (\<lambda>conditions.
               thn (getitem_int conditions 0) (\<lambda>first.
               thn (getitem_str first ''description'') (\<lambda>description.
               capitalize_method (unicode_capitalize E) description))))) (\<lambda>weather.
            and_then (pure
              (thn (getitem_str data ''main'') (\<lambda>main.
               getitem_str main ''temp''))) (\<lambda>temp.
            and_then (pure
              (thn (getitem_str data ''main'') (\<lambda>main.
               getitem_str main ''humidity''))) (\<lambda>humidity.
            and_then (ret (PDict [(''description'', weather),
                                  (''temperature'', temp),
                                  (''humidity'', humidity)])) (\<lambda>weather_info.
            and_then (logging (WeatherData city weather_info)) (\<lambda>_.
            ret weather_info)))))))))))
       (\<lambda>e.
          if is_RequestException e then
            and_then (logging (RequestError e)) (\<lambda>_. ret (PStr network_message))
          else
            and_then (logging (UnexpectedError e)) (\<lambda>_. ret (PStr unexpected_message)))"

section \<open>Drawing the chart\<close>

text \<open>
  The plotting library keeps a stack of open figures; drawing commands act on the current
  one and open a default figure when there is none.  Drawing the bars and saving the
  figure can raise, as \<open>bar_rejects\<close> and \<open>savefig_rejects\<close> of the environment say; the
  title and the axis label are only recorded, and are rendered when the figure is saved.
  A figure that is saved replaces what the file held; when saving raises, nothing is
  written.
\<close>

definition default_figure :: chart where
  "default_figure = \<lparr>figsize = (6.4, 4.8), bars = [], title = [], ylabel = []\<rparr>"

definition current_figure :: "world \<Rightarrow> chart \<times> chart list" where
  "current_figure w = (case figures w of [] \<Rightarrow> (default_figure, []) | c # cs \<Rightarrow> (c, cs))"

definition on_current :: "(chart \<Rightarrow> chart) \<Rightarrow> unit io" where
  "on_current f w = (case current_figure w of (c, cs) \<Rightarrow> (Inr (), w\<lparr>figures := f c # cs\<rparr>))"

fun is_number :: "pyval \<Rightarrow> bool" where
  "is_number (PInt i) = True"
| "is_number (PFloat r) = True"
| "is_number v = False"

definition plt_figure :: "real \<times> real \<Rightarrow> unit io" where
  "plt_figure dims w = (Inr (), w\<lparr>figures := default_figure\<lparr>figsize := dims\<rparr> # figures w\<rparr>)"

definition plt_bar :: "env \<Rightarrow> string list \<Rightarrow> pyval list \<Rightarrow> string list \<Rightarrow> unit io" where
  "plt_bar E labels heights colors w =
     (case bar_rejects E heights of
        Some e \<Rightarrow> (Inl e, w)
      | None \<Rightarrow> on_current (\<lambda>c. c\<lparr>bars := bars c @ zip labels (zip heights colors)\<rparr>) w)"

definition plt_title :: "string \<Rightarrow> unit io" where
  "plt_title s = on_current (\<lambda>c. c\<lparr>title := s\<rparr>)"

definition plt_ylabel :: "string \<Rightarrow> unit io" where
  "plt_ylabel s = on_current (\<lambda>c. c\<lparr>ylabel := s\<rparr>)"

definition plt_savefig :: "env \<Rightarrow> string \<Rightarrow> unit io" where
  "plt_savefig E path w =
     (case current_figure w of
        (c, cs) \<Rightarrow>
          (case savefig_rejects E path c of
             Some e \<Rightarrow> (Inl e, w\<lparr>figures := c # cs\<rparr>)
           | None \<Rightarrow> (Inr (), w\<lparr>files := (files w)(path \<mapsto> Png c), figures := c # cs\<rparr>)))"

definition plt_close :: "unit io" where
  "plt_close w = (Inr (), w\<lparr>figures := (case figures w of [] \<Rightarrow> [] | c # cs \<Rightarrow> cs)\<rparr>)"

definition create_weather_graph :: "env \<Rightarrow> string option \<Rightarrow> pyval \<Rightarrow> unit io" where
  "create_weather_graph E city weather_data =
     and_then (ret [''Temperature'', ''Humidity'']) (\<lambda>labels.
     and_then (pure
       (thn (getitem_str weather_data ''temperature'') (\<lambda>temperature.
        thn (getitem_str weather_data ''humidity'') (\<lambda>humidity.
        Inr [temperature, humidity])))) (\<lambda>values.
     and_then (plt_figure (8, 6)) (\<lambda>_.
     and_then (plt_bar E labels values [''skyblue'', ''lightgreen'']) (\<lambda>_.
     and_then (plt_title (''Weather in '' @ fstr city)) (\<lambda>_.
     and_then (plt_ylabel ''Values'') (\<lambda>_.
     and_then (plt_savefig E ''weather.png'') (\<lambda>_.
     plt_close)))))))"

section \<open>The weather command\<close>

text \<open>The incoming command: the chat it came from and the words after the command name.\<close>

record update =
  chat_id :: int
  args :: "string list"

fun join :: "string \<Rightarrow> string list \<Rightarrow> string" where
  "join sep [] = []"
| "join sep [x] = x"
| "join sep (x # y # ys) = x @ sep @ join sep (y # ys)"

definition reply_text :: "env \<Rightarrow> int \<Rightarrow> pyval \<Rightarrow> unit io" where
  "reply_text E chat text w =
     (case telegram_rejects E (Text chat text) of
        Some e \<Rightarrow> (Inl e, w)
      | None \<Rightarrow> (Inr (), w\<lparr>sent := sent w @ [Text chat text]\<rparr>))"

definition open_rb :: "string \<Rightarrow> file_content io" where
  "open_rb path w =
     (case files w path of
        None \<Rightarrow> (Inl (FileNotFoundError path), w)
      | Some content \<Rightarrow> (Inr content, w))"

definition send_photo :: "env \<Rightarrow> int \<Rightarrow> file_content \<Rightarrow> unit io" where
  "send_photo E chat photo w =
     (case telegram_rejects E (Photo chat photo) of
        Some e \<Rightarrow> (Inl e, w)
      | None \<Rightarrow> (Inr (), w\<lparr>sent := sent w @ [Photo chat photo]\<rparr>))"

definition weather :: "env \<Rightarrow> update \<Rightarrow> unit io" where
  "weather E u =
     and_then (ret (if args u \<noteq> [] then Some (join '' '' (args u))
                    else DEFAULT_LOCATION E)) (\<lambda>city.
     and_then (get_weather E city) (\<lambda>weather_data.
       if \<not> truthy weather_data \<or> isinstance_str weather_data then
         reply_text E (chat_id u) weather_data
       else
         and_then (create_weather_graph E city weather_data) (\<lambda>_.
         and_then (open_rb ''weather.png'') (\<lambda>photo.
         send_photo E (chat_id u) photo))))"

section \<open>Notions used in the statements\<close>

text \<open>
  The shape of a provider payload: its \<^verbatim>\<open>weather\<close> entry is a non-empty list whose first
  element is an object with a string \<^verbatim>\<open>description\<close>, and its \<^verbatim>\<open>main\<close> entry is an
  object with \<^verbatim>\<open>temp\<close> and \<^verbatim>\<open>humidity\<close>.  A payload of this shape is \<open>complete_payload\<close>; it is
  \<open>well_formed_payload\<close> when, as the provider's interface has it, the two readings are numbers.
\<close>

fun has_description :: "pyval \<Rightarrow> bool" where
  "has_description (PList (PDict first # others)) =
     (case map_of first ''description'' of Some (PStr d) \<Rightarrow> True | _ \<Rightarrow> False)"
| "has_description v = False"

fun has_readings :: "(pyval \<Rightarrow> bool) \<Rightarrow> pyval \<Rightarrow> bool" where
  "has_readings accepted (PDict m) =
     (case (map_of m ''temp'', map_of m ''humidity'') of
        (Some t, Some h) \<Rightarrow> accepted t \<and> accepted h
      | _ \<Rightarrow> False)"
| "has_readings accepted v = False"

definition payload_shape :: "(pyval \<Rightarrow> bool) \<Rightarrow> (string \<times> pyval) list \<Rightarrow> bool" where
  "payload_shape accepted kvs =
     ((case map_of kvs ''weather'' of Some v \<Rightarrow> has_description v | None \<Rightarrow> False)
      \<and> (case map_of kvs ''main'' of Some v \<Rightarrow> has_readings accepted v | None \<Rightarrow> False))"

definition complete_payload :: "(string \<times> pyval) list \<Rightarrow> bool" where
  "complete_payload kvs = payload_shape (\<lambda>v. True) kvs"

definition well_formed_payload :: "(string \<times> pyval) list \<Rightarrow> bool" where
  "well_formed_payload kvs = payload_shape is_number kvs"

text \<open>A humidity reading: a number from 0 to 100.\<close>

fun percentage :: "pyval \<Rightarrow> bool" where
  "percentage (PInt i) = (0 \<le> i \<and> i \<le> 100)"
| "percentage (PFloat r) = (0 \<le> r \<and> r \<le> 100)"
| "percentage v = False"

text \<open>The value \<^verbatim>\<open>get_weather\<close> builds on success, and the chart drawn from it.\<close>

definition weather_info :: "string \<Rightarrow> pyval \<Rightarrow> pyval \<Rightarrow> pyval" where
  "weather_info d t h =
     PDict [(''description'', PStr d), (''temperature'', t), (''humidity'', h)]"

definition weather_chart :: "string option \<Rightarrow> pyval \<Rightarrow> pyval \<Rightarrow> chart" where
  "weather_chart city t h =
     \<lparr>figsize = (8, 6),
      bars = [(''Temperature'', t, ''skyblue''), (''Humidity'', h, ''lightgreen'')],
      title = ''Weather in '' @ fstr city,
      ylabel = ''Values''\<rparr>"

subsection \<open>Sample data\<close>

text \<open>
  A fresh world; a provider that gives one answer to every request, with services that
  never fail and text beyond ASCII left as it is; an answer with a status code and a
  decoded body; the payload of a clear sky at 60 percent humidity, for a given status
  field and temperature; one of overcast clouds, its description in mixed case; the
  provider's answer for an unknown city.
\<close>

definition fresh :: world where
  "fresh = \<lparr>files = Map.empty, figures = [], sent = [], fetched = [], logged = []\<rparr>"

definition provider :: "exn + response \<Rightarrow> env" where
  "provider answer =
     \<lparr>WEATHER_API_KEY = Some ''KEY'', DEFAULT_LOCATION = None,
      requests_get = (\<lambda>url. answer),
      unicode_capitalize = (\<lambda>s. s),
      bar_rejects = (\<lambda>heights. None),
      savefig_rejects = (\<lambda>path c. None),
      telegram_rejects = (\<lambda>r. None)\<rparr>"

definition answer :: "nat \<Rightarrow> pyval \<Rightarrow> exn + response" where
  "answer code data = Inr \<lparr>status_code = code, json = Inr data\<rparr>"

definition clear_sky :: "pyval \<Rightarrow> pyval \<Rightarrow> (string \<times> pyval) list" where
  "clear_sky cod temp =
     [(''cod'', cod),
      (''weather'', PList [PDict [(''description'', PStr ''clear sky'')]]),
      (''main'', PDict [(''temp'', temp), (''humidity'', PInt 60)])]"

definition overcast :: "(string \<times> pyval) list" where
  "overcast =
     [(''cod'', PInt 200),
      (''weather'', PList [PDict [(''description'', PStr ''oVERCAST cLOUDS'')]]),
      (''main'', PDict [(''temp'', PFloat 18.5), (''humidity'', PInt 60)])]"

definition city_not_found :: "(string \<times> pyval) list" where
  "city_not_found = [(''cod'', PInt 404), (''message'', PStr ''city not found'')]"

definition blocked :: "env \<Rightarrow> env" where
  "blocked E = E\<lparr>telegram_rejects := (\<lambda>r. Some TelegramError)\<rparr>"

text \<open>
  A plotting library that raises where the one in use is seen to: \<^verbatim>\<open>OverflowError\<close> on
  an integer height outside the 64-bit range, and \<^verbatim>\<open>ValueError\<close> when it saves a figure
  titled \<^verbatim>\<open>Weather in $$\<close>, whose two dollar signs enclose an empty formula.
\<close>

fun beyond_int64 :: "pyval \<Rightarrow> bool" where
  "beyond_int64 (PInt i) = (i < - 9223372036854775808 \<or> 9223372036854775807 < i)"
| "beyond_int64 v = False"

definition plotting_limits :: "env \<Rightarrow> env" where
  "plotting_limits E =
     E\<lparr>bar_rejects := (\<lambda>heights. if list_ex beyond_int64 heights then Some OverflowError
                                  else None),
       savefig_rejects := (\<lambda>path c. if title c = ''Weather in $$'' then Some ValueError
                                     else None)\<rparr>"

section \<open>The steps of \<open>get_weather\<close> without the world\<close>

text \<open>
  For the proofs, the body of the \<^verbatim>\<open>try\<close> block is read once more as a function of the
  environment alone: \<open>extraction\<close> is the reading of the three fields, \<open>script\<close> the
  block up to its \<^verbatim>\<open>return\<close>, giving the value returned with the entries logged on the
  way or the exception raised, and \<open>caught\<close> what the two handlers make of an exception.
  Lemma \<open>get_weather_script\<close> below shows that \<open>get_weather\<close> computes exactly this.
\<close>

definition extraction :: "env \<Rightarrow> pyval \<Rightarrow> exn + pyval" where
  "extraction E data =
     thn (thn (getitem_str data ''weather'') (\<lambda>conditions.
          thn (getitem_int conditions 0) (\<lambda>first.
          thn (getitem_str first ''description'') (\<lambda>description.
          capitalize_method (unicode_capitalize E) description)))) (\<lambda>weather.
     thn (thn (getitem_str data ''main'') (\<lambda>main. getitem_str main ''temp'')) (\<lambda>temp.
     thn (thn (getitem_str data ''main'') (\<lambda>main. getitem_str main ''humidity'')) (\<lambda>humidity.
     Inr (PDict [(''description'', weather), (''temperature'', temp),
                 (''humidity'', humidity)]))))"

definition script :: "env \<Rightarrow> string option \<Rightarrow> exn + pyval \<times> log_entry list" where
  "script E city =
     thn (requests_get E (weather_url E city)) (\<lambda>response.
     thn (raise_for_status response) (\<lambda>_.
     thn (json response) (\<lambda>data.
     thn (dict_get data ''cod'') (\<lambda>cod.
       if py_ne_int cod 200 then
         thn (dict_get data ''message'') (\<lambda>message.
         Inr (PStr (invalid_location_message city), [FetchFailed city message]))
       else
         thn (extraction E data) (\<lambda>info. Inr (info, [WeatherData city info]))))))"

definition caught :: "exn \<Rightarrow> pyval \<times> log_entry list" where
  "caught e =
     (if is_RequestException e then (PStr network_message, [RequestError e])
      else (PStr unexpected_message, [UnexpectedError e]))"

section \<open>Basic facts\<close>

lemmas io_defs = try_except_def and_then_def logging_def http_get_def pure_def ret_def

lemmas fetch_defs = get_weather_def io_defs raise_for_status_def thn_def py_ne_int_def

lemmas plt_defs = create_weather_graph_def plt_figure_def plt_bar_def plt_title_def
  plt_ylabel_def plt_savefig_def plt_close_def on_current_def current_figure_def
  default_figure_def

lemmas run_defs = fetch_defs plt_defs weather_def reply_text_def open_rb_def send_photo_def
  invalid_location_message_def

lemmas capitalize_defs = capitalize_def is_ascii_def upper_char_def lower_char_def
  ascii_lowercase_def ascii_uppercase_def

lemmas sample_defs = provider_def answer_def clear_sky_def overcast_def city_not_found_def
  fresh_def
  weather_url_def weather_info_def capitalize_defs seq_index_def

lemma thn_Inr_iff: "thn a f = Inr y \<longleftrightarrow> (\<exists>x. a = Inr x \<and> f x = Inr y)"
  by (cases a) (simp_all add: thn_def)

lemma thn_Inl_iff: "thn a f = Inl e \<longleftrightarrow> a = Inl e \<or> (\<exists>x. a = Inr x \<and> f x = Inl e)"
  by (cases a) (simp_all add: thn_def)

lemma seq_index_head: "seq_index (x # xs) 0 = Inr x"
  by (simp add: seq_index_def)

lemma seq_index_raises: "seq_index xs i = Inl e \<Longrightarrow> e = IndexError"
  by (simp add: seq_index_def Let_def split: if_splits)

text \<open>
  The comparison with 200 holds of the float 200.0 as of the integer, and of nothing that
  is not a number.
\<close>

lemma py_eq_int_200:
  "py_eq_int (PInt 200) 200" "py_eq_int (PFloat 200) 200" "\<not> py_eq_int (PBool b) 200"
  "\<not> py_eq_int (PStr s) 200" "\<not> py_eq_int PNone 200"
  by simp_all

subsection \<open>Capitalizing ASCII text\<close>

lemma upper_char_not_lower: "upper_char c \<notin> set ascii_lowercase"
  by (simp add: upper_char_def ascii_lowercase_def ascii_uppercase_def)

lemma lower_char_not_upper: "lower_char c \<notin> set ascii_uppercase"
  by (simp add: lower_char_def ascii_lowercase_def ascii_uppercase_def)

lemma lower_upper_char: "lower_char (upper_char c) = lower_char c"
  by (simp add: lower_char_def upper_char_def ascii_lowercase_def ascii_uppercase_def)

lemma lower_lower_char: "lower_char (lower_char c) = lower_char c"
  by (simp add: lower_char_def ascii_lowercase_def ascii_uppercase_def)

lemma capitalize_ascii_letters:
  "length (capitalize_ascii s) = length s
   \<and> map lower_char (capitalize_ascii s) = map lower_char s
   \<and> (s \<noteq> [] \<longrightarrow> hd (capitalize_ascii s) \<notin> set ascii_lowercase)
   \<and> (\<forall>c \<in> set (tl (capitalize_ascii s)). c \<notin> set ascii_uppercase)"
  by (cases s)
    (auto simp: lower_upper_char lower_lower_char upper_char_not_lower lower_char_not_upper)

subsection \<open>What the subscripts raise and return\<close>

lemma getitem_str_raises: "getitem_str v k = Inl e \<Longrightarrow> \<not> is_RequestException e"
  by (cases v) (auto split: option.splits)

lemma getitem_int_raises: "getitem_int v i = Inl e \<Longrightarrow> \<not> is_RequestException e"
  by (cases v) (auto simp: thn_Inl_iff dest: seq_index_raises)

lemma capitalize_method_raises:
  "capitalize_method unicode v = Inl e \<Longrightarrow> \<not> is_RequestException e"
  by (cases v) auto

lemma capitalize_method_returns:
  "capitalize_method unicode v = Inr x \<Longrightarrow>
     \<exists>d. v = PStr d \<and> x = PStr (capitalize unicode d)"
  by (cases v) auto

lemma getitem_str_returns:
  "getitem_str v k = Inr x \<Longrightarrow> \<exists>kvs. v = PDict kvs \<and> map_of kvs k = Some x"
  by (cases v) (auto split: option.splits)

lemma getitem_int_returns:
  "getitem_int v 0 = Inr x \<Longrightarrow>
     (\<exists>xs. v = PList (x # xs)) \<or> (\<exists>s c. v = PStr s \<and> x = PStr c)"
proof (cases v)
  case (PList xs)
  assume "getitem_int v 0 = Inr x"
  with PList show ?thesis
    by (cases xs) (simp_all add: seq_index_def)
next
  case (PStr s)
  assume "getitem_int v 0 = Inr x"
  with PStr show ?thesis
    by (auto simp add: thn_Inr_iff)
qed auto

subsection \<open>The reading of the fields\<close>

lemma extraction_raises: "extraction E data = Inl e \<Longrightarrow> \<not> is_RequestException e"
  by (auto simp: extraction_def thn_Inl_iff
      dest: getitem_str_raises getitem_int_raises capitalize_method_raises)

lemma extraction_returns:
  "extraction E data = Inr v \<Longrightarrow>
     \<exists>d t h. v = weather_info (capitalize (unicode_capitalize E) d) t h"
  by (auto simp: extraction_def thn_Inr_iff weather_info_def dest!: capitalize_method_returns)

lemma extraction_complete:
  assumes "extraction E (PDict kvs) = Inr v"
  shows "complete_payload kvs"
proof -
  from assms obtain conditions first description t h where
    c: "getitem_str (PDict kvs) ''weather'' = Inr conditions"
      "getitem_int conditions 0 = Inr first"
      "getitem_str first ''description'' = Inr description"
      "capitalize_method (unicode_capitalize E) description \<noteq> Inl AttributeError"
    and m: "thn (getitem_str (PDict kvs) ''main'') (\<lambda>main. getitem_str main ''temp'') = Inr t"
      "thn (getitem_str (PDict kvs) ''main'') (\<lambda>main. getitem_str main ''humidity'') = Inr h"
    by (auto simp: extraction_def thn_Inr_iff)
  from c(3) obtain fs where
    first: "first = PDict fs" "map_of fs ''description'' = Some description"
    by (auto dest: getitem_str_returns)
  from c(2) first obtain others where "conditions = PList (PDict fs # others)"
    by (auto dest: getitem_int_returns)
  moreover from c(4) obtain d where "description = PStr d"
    by (cases description) auto
  ultimately have "has_description conditions"
    using first by simp
  moreover from m obtain ms where "map_of kvs ''main'' = Some (PDict ms)"
    "map_of ms ''temp'' = Some t" "map_of ms ''humidity'' = Some h"
    by (auto simp: thn_Inr_iff split: option.splits dest!: getitem_str_returns)
  ultimately show ?thesis
    using c(1) by (auto simp: complete_payload_def payload_shape_def split: option.splits)
qed

lemma extraction_incomplete:
  assumes "\<not> complete_payload kvs"
  shows "\<exists>e. extraction E (PDict kvs) = Inl e \<and> \<not> is_RequestException e"
proof (cases "extraction E (PDict kvs)")
  case (Inl e)
  with extraction_raises [OF Inl] show ?thesis by simp
next
  case (Inr v)
  with assms extraction_complete [OF Inr] show ?thesis by simp
qed

subsection \<open>The whole of \<open>get_weather\<close>\<close>

lemma get_weather_script:
  "get_weather E city w =
     (case (case script E city of Inl e \<Rightarrow> caught e | Inr x \<Rightarrow> x) of
        (v, L) \<Rightarrow> (Inr v, w\<lparr>fetched := fetched w @ [weather_url E city],
                           logged := logged w @ Fetching city # L\<rparr>))"
  by (simp add: get_weather_def script_def extraction_def caught_def io_defs thn_def
      split: sum.splits)

lemma script_returns:
  assumes "script E city = Inr (v, L)"
  shows "v = PStr (invalid_location_message city) \<or> (\<exists>d t h. v = weather_info d t h)"
proof -
  from assms consider "v = PStr (invalid_location_message city)"
    | data where "extraction E data = Inr v"
    by (auto simp: script_def thn_Inr_iff split: if_splits)
  then show ?thesis
  proof cases
    case 1
    then show ?thesis by simp
  next
    case 2
    from extraction_returns [OF 2] show ?thesis by blast
  qed
qed

lemma script_status_ok:
  assumes "requests_get E (weather_url E city) = Inr r"
    and "\<not> (400 \<le> status_code r \<and> status_code r < 600)"
    and "json r = Inr (PDict kvs)"
  shows "script E city =
     (if py_ne_int (case map_of kvs ''cod'' of None \<Rightarrow> PNone | Some c \<Rightarrow> c) 200
      then Inr (PStr (invalid_location_message city),
                [FetchFailed city (case map_of kvs ''message'' of None \<Rightarrow> PNone | Some c \<Rightarrow> c)])
      else thn (extraction E (PDict kvs)) (\<lambda>info. Inr (info, [WeatherData city info])))"
proof -
  from assms(2) have "raise_for_status r = Inr ()"
    by (auto simp add: raise_for_status_def)
  with assms(1,3) show ?thesis
    by (simp add: script_def thn_def)
qed

lemma script_status_2xx:
  assumes "requests_get E (weather_url E city) = Inr r"
    and "200 \<le> status_code r" and "status_code r < 300"
    and "json r = Inr (PDict kvs)"
  shows "script E city =
     (if py_ne_int (case map_of kvs ''cod'' of None \<Rightarrow> PNone | Some c \<Rightarrow> c) 200
      then Inr (PStr (invalid_location_message city),
                [FetchFailed city (case map_of kvs ''message'' of None \<Rightarrow> PNone | Some c \<Rightarrow> c)])
      else thn (extraction E (PDict kvs)) (\<lambda>info. Inr (info, [WeatherData city info])))"
  using assms by (intro script_status_ok) simp_all

lemma get_weather_shape:
  "\<exists>v w1. get_weather E city w = (Inr v, w1)
     \<and> files w1 = files w \<and> figures w1 = figures w \<and> sent w1 = sent w
     \<and> fetched w1 = fetched w @ [weather_url E city]
     \<and> (v = PStr (invalid_location_message city) \<or> v = PStr network_message
          \<or> v = PStr unexpected_message \<or> (\<exists>d t h. v = weather_info d t h))"
proof (cases "script E city")
  case (Inl e)
  then show ?thesis
    by (simp add: get_weather_script caught_def)
next
  case (Inr x)
  obtain v L where x: "x = (v, L)" by (cases x)
  with Inr script_returns [of E city v L] show ?thesis
    by (auto simp add: get_weather_script)
qed

subsection \<open>Drawing and replying\<close>

lemma percentage_number: "percentage h \<Longrightarrow> is_number h"
  by (cases h) simp_all

lemma create_weather_graph_run:
  assumes "map_of kvs ''temperature'' = Some t" and "map_of kvs ''humidity'' = Some h"
  shows "create_weather_graph E city (PDict kvs) w =
     (case bar_rejects E [t, h] of
        Some e \<Rightarrow> (Inl e, w\<lparr>figures := default_figure\<lparr>figsize := (8, 6)\<rparr> # figures w\<rparr>)
      | None \<Rightarrow>
         (case savefig_rejects E ''weather.png'' (weather_chart city t h) of
            Some e \<Rightarrow> (Inl e, w\<lparr>figures := weather_chart city t h # figures w\<rparr>)
          | None \<Rightarrow>
              (Inr (),
               w\<lparr>files := (files w)(''weather.png'' \<mapsto> Png (weather_chart city t h))\<rparr>)))"
  using assms
  by (simp add: plt_defs io_defs thn_def weather_chart_def split: option.splits)

lemma create_weather_graph_files:
  assumes "map_of kvs ''temperature'' = Some t" and "map_of kvs ''humidity'' = Some h"
  shows "files (snd (create_weather_graph E city (PDict kvs) w)) =
     (case fst (create_weather_graph E city (PDict kvs) w) of
        Inl e \<Rightarrow> files w
      | Inr _ \<Rightarrow> (files w)(''weather.png'' \<mapsto> Png (weather_chart city t h)))"
  by (simp add: create_weather_graph_run [OF assms] split: option.splits)

lemma reply_text_run:
  "reply_text E chat v w =
     (case telegram_rejects E (Text chat v) of
        Some e \<Rightarrow> (Inl e, w)
      | None \<Rightarrow> (Inr (), w\<lparr>sent := sent w @ [Text chat v]\<rparr>))"
  by (simp add: reply_text_def)

lemma render_and_send_run:
  "and_then (create_weather_graph E city (weather_info d t h)) (\<lambda>_.
     and_then (open_rb ''weather.png'') (\<lambda>photo. send_photo E chat photo)) w =
   (case bar_rejects E [t, h] of
      Some e \<Rightarrow> (Inl e, w\<lparr>figures := default_figure\<lparr>figsize := (8, 6)\<rparr> # figures w\<rparr>)
    | None \<Rightarrow>
       (case savefig_rejects E ''weather.png'' (weather_chart city t h) of
          Some e \<Rightarrow> (Inl e, w\<lparr>figures := weather_chart city t h # figures w\<rparr>)
        | None \<Rightarrow>
           (case telegram_rejects E (Photo chat (Png (weather_chart city t h))) of
              Some e \<Rightarrow>
                (Inl e,
                 w\<lparr>files := (files w)(''weather.png'' \<mapsto> Png (weather_chart city t h))\<rparr>)
            | None \<Rightarrow>
                (Inr (),
                 w\<lparr>files := (files w)(''weather.png'' \<mapsto> Png (weather_chart city t h)),
                   sent := sent w @ [Photo chat (Png (weather_chart city t h))]\<rparr>))))"
  by (simp add: create_weather_graph_run weather_info_def and_then_def open_rb_def
      send_photo_def split: option.splits)

lemma weather_unfold:
  assumes "city = (if args u \<noteq> [] then Some (join '' '' (args u)) else DEFAULT_LOCATION E)"
    and "get_weather E city w = (Inr v, w1)"
  shows "weather E u w =
     (if \<not> truthy v \<or> isinstance_str v then reply_text E (chat_id u) v w1
      else and_then (create_weather_graph E city v) (\<lambda>_.
           and_then (open_rb ''weather.png'') (\<lambda>photo.
           send_photo E (chat_id u) photo)) w1)"
  using assms by (simp add: weather_def and_then_def ret_def)

section \<open>The claims\<close>

subsection \<open>C1: a well-formed success payload\<close>

text \<open>
  C1.  For every response with a 2xx status whose body is an object with \<^verbatim>\<open>cod\<close> equal
  to 200, a non-empty \<^verbatim>\<open>weather\<close> list whose first element has a string
  \<^verbatim>\<open>description\<close>, and a \<^verbatim>\<open>main\<close> object with \<^verbatim>\<open>temp\<close> and \<^verbatim>\<open>humidity\<close>,
  \<open>get_weather\<close> returns the record whose description is that string capitalized as
  \<^verbatim>\<open>str.capitalize\<close> does it, whose temperature is \<^verbatim>\<open>main.temp\<close> and whose humidity is
  \<^verbatim>\<open>main.humidity\<close>, unchanged.  Capitalized means, for a description in ASCII: the same
  characters up to the case of letters, none added or dropped, the first not a lower-case
  letter and none of the others an upper-case letter.  For a description with characters
  beyond ASCII it is what the interpreter's Unicode mapping gives.
\<close>

theorem get_weather_success:
  assumes "requests_get E (weather_url E city) = Inr r"
    and "200 \<le> status_code r" and "status_code r < 300"
    and "json r = Inr (PDict kvs)"
    and "map_of kvs ''cod'' = Some cod" and "py_eq_int cod 200"
    and "map_of kvs ''weather'' = Some (PList (PDict first # others))"
    and "map_of first ''description'' = Some (PStr d)"
    and "map_of kvs ''main'' = Some (PDict m)"
    and "map_of m ''temp'' = Some temp" and "map_of m ''humidity'' = Some humidity"
  shows "fst (get_weather E city w) =
           Inr (PDict [(''description'', PStr (capitalize (unicode_capitalize E) d)),
                       (''temperature'', temp), (''humidity'', humidity)])
       \<and> (is_ascii d \<longrightarrow>
            length (capitalize (unicode_capitalize E) d) = length d
            \<and> map lower_char (capitalize (unicode_capitalize E) d) = map lower_char d
            \<and> (d \<noteq> [] \<longrightarrow> hd (capitalize (unicode_capitalize E) d) \<notin> set ascii_lowercase)
            \<and> (\<forall>c \<in> set (tl (capitalize (unicode_capitalize E) d)).
                  c \<notin> set ascii_uppercase))
       \<and> (\<not> is_ascii d \<longrightarrow>
            capitalize (unicode_capitalize E) d = unicode_capitalize E d)"
proof -
  from assms have "fst (get_weather E city w) =
           Inr (PDict [(''description'', PStr (capitalize (unicode_capitalize E) d)),
                       (''temperature'', temp), (''humidity'', humidity)])"
    by (simp add: fetch_defs seq_index_head)
  then show ?thesis
    using capitalize_ascii_letters [of d] by (simp add: capitalize_def)
qed

text \<open>Overcast clouds over Paris, the description arriving in mixed case.\<close>

theorem get_weather_success_witness:
  "requests_get (provider (answer 200 (PDict overcast)))
      (weather_url (provider (answer 200 (PDict overcast))) (Some ''Paris''))
     = Inr \<lparr>status_code = 200, json = Inr (PDict overcast)\<rparr>
   \<and> py_eq_int (PInt 200) 200
   \<and> is_ascii ''oVERCAST cLOUDS''
   \<and> fst (get_weather (provider (answer 200 (PDict overcast))) (Some ''Paris'') fresh)
     = Inr (PDict [(''description'', PStr ''Overcast clouds''),
                   (''temperature'', PFloat 18.5), (''humidity'', PInt 60)])"
  using get_weather_success
    [of "provider (answer 200 (PDict overcast))" "Some ''Paris''"
        "\<lparr>status_code = 200, json = Inr (PDict overcast)\<rparr>"
        overcast "PInt 200"
        "[(''description'', PStr ''oVERCAST cLOUDS'')]" "[]" "''oVERCAST cLOUDS''"
        "[(''temp'', PFloat 18.5), (''humidity'', PInt 60)]" "PFloat 18.5" "PInt 60" fresh]
  by (simp add: provider_def answer_def overcast_def capitalize_defs)

subsection \<open>C2: a status field that is not the success code\<close>

text \<open>
  C2.  For every object delivered on a 2xx response whose \<^verbatim>\<open>cod\<close> (\<^verbatim>\<open>None\<close> when the
  field is absent) is not equal to 200, \<open>get_weather\<close> returns the invalid-location
  message, which contains the queried location.  In particular the command
  \<^verbatim>\<open>/weather Nowhereistan\<close>, answered by the provider with
  \<^verbatim>\<open>{cod: 404, message: "city not found"}\<close>, is replied to with the text
  ``Unable to fetch weather for Nowhereistan. Please check the city name and try again.''
  (the chat service accepting the reply).
\<close>

theorem get_weather_invalid_location:
  "(requests_get E (weather_url E city) = Inr r \<and> 200 \<le> status_code r \<and> status_code r < 300
      \<and> json r = Inr (PDict kvs)
      \<and> py_ne_int (case map_of kvs ''cod'' of None \<Rightarrow> PNone | Some c \<Rightarrow> c) 200
    \<longrightarrow> fst (get_weather E city w) =
          Inr (PStr (''Unable to fetch weather for '' @ fstr city
                       @ ''. Please check the city name and try again.'')))
  \<and> (args u = [''Nowhereistan'']
      \<and> requests_get E (weather_url E (Some ''Nowhereistan'')) = Inr r
      \<and> 200 \<le> status_code r \<and> status_code r < 300 \<and> json r = Inr (PDict city_not_found)
      \<and> telegram_rejects E (Text (chat_id u) (PStr
            ''Unable to fetch weather for Nowhereistan. Please check the city name and try again.''))
          = None
    \<longrightarrow> fst (weather E u w) = Inr ()
        \<and> sent (snd (weather E u w)) = sent w @ [Text (chat_id u) (PStr
            ''Unable to fetch weather for Nowhereistan. Please check the city name and try again.'')])"
  by (simp add: fetch_defs invalid_location_message_def weather_def reply_text_def
      city_not_found_def)

theorem get_weather_invalid_location_witness:
  "py_ne_int (PInt 404) 200
   \<and> fst (get_weather (provider (answer 200 (PDict city_not_found))) (Some ''Nowhereistan'') fresh)
       = Inr (PStr
           ''Unable to fetch weather for Nowhereistan. Please check the city name and try again.'')
   \<and> weather (provider (answer 200 (PDict city_not_found)))
        \<lparr>chat_id = 7, args = [''Nowhereistan'']\<rparr> fresh
       = (Inr (), fresh\<lparr>sent := [Text 7 (PStr
           ''Unable to fetch weather for Nowhereistan. Please check the city name and try again.'')],
            fetched := [''http://api.openweathermap.org/data/2.5/weather?q=Nowhereistan&appid=KEY&units=metric''],
            logged := [Fetching (Some ''Nowhereistan''),
                       FetchFailed (Some ''Nowhereistan'') (PStr ''city not found'')]\<rparr>)"
  using get_weather_invalid_location
    [of "provider (answer 200 (PDict city_not_found))" "Some ''Nowhereistan''"
        "\<lparr>status_code = 200, json = Inr (PDict city_not_found)\<rparr>" city_not_found fresh
        "\<lparr>chat_id = 7, args = [''Nowhereistan'']\<rparr>"]
  by (simp add: provider_def answer_def city_not_found_def py_ne_int_def fresh_def
      prod_eq_iff get_weather_script script_def weather_def reply_text_def io_defs thn_def
      raise_for_status_def weather_url_def invalid_location_message_def)

subsection \<open>C3: transport failures\<close>

text \<open>
  As C3 is worded, every status outside 200 to 299 is a network failure.  The status
  check raises for 400 to 599 only: a response with status 300 and the payload of a clear
  sky is read like any other, and \<open>get_weather\<close> returns the weather.
\<close>

theorem multiple_choices_counterexample:
  "\<not> (200 \<le> (300::nat) \<and> (300::nat) < 300)
   \<and> fst (get_weather (provider (answer 300 (PDict (clear_sky (PInt 200) (PFloat 18.5)))))
        (Some ''Paris'') fresh)
     = Inr (weather_info ''Clear sky'' (PFloat 18.5) (PInt 60))
   \<and> fst (get_weather (provider (answer 300 (PDict (clear_sky (PInt 200) (PFloat 18.5)))))
        (Some ''Paris'') fresh)
     \<noteq> Inr (PStr network_message)"
  by (simp add: fetch_defs sample_defs)

text \<open>
  C3, amended.  When the request raises an exception of the HTTP library's
  \<^verbatim>\<open>RequestException\<close> family (connection refused, timeout, DNS failure), or the
  response has a status from 400 to 599, \<open>get_weather\<close> returns the network-failure
  message, having requested the URL once and logged the exception.  On the second path
  no field of the payload is read: the outcome, log included, is the same whatever the
  body of the response.  Every other status is no failure by itself: the outcome is the
  one the same body gives on status 200.
\<close>

theorem get_weather_network_failure:
  "(requests_get E (weather_url E city) = Inl e \<and> is_RequestException e
    \<longrightarrow> get_weather E city w =
          (Inr (PStr network_message),
           w\<lparr>fetched := fetched w @ [weather_url E city],
             logged := logged w @ [Fetching city, RequestError e]\<rparr>))
  \<and> (requests_get E (weather_url E city) = Inr r
      \<and> 400 \<le> status_code r \<and> status_code r < 600
    \<longrightarrow> get_weather E city w =
          (Inr (PStr network_message),
           w\<lparr>fetched := fetched w @ [weather_url E city],
             logged := logged w @ [Fetching city, RequestError (HTTPError (status_code r))]\<rparr>)
        \<and> get_weather
            (E\<lparr>requests_get := (requests_get E)(weather_url E city := Inr (r\<lparr>json := body\<rparr>))\<rparr>)
            city w
          = get_weather E city w)
  \<and> (requests_get E (weather_url E city) = Inr r
      \<and> \<not> (400 \<le> status_code r \<and> status_code r < 600)
    \<longrightarrow> get_weather E city w =
          get_weather
            (E\<lparr>requests_get :=
                 (requests_get E)(weather_url E city := Inr (r\<lparr>status_code := 200\<rparr>))\<rparr>)
            city w)"
proof (intro conjI impI)
  assume "requests_get E (weather_url E city) = Inl e \<and> is_RequestException e"
  then show "get_weather E city w =
          (Inr (PStr network_message),
           w\<lparr>fetched := fetched w @ [weather_url E city],
             logged := logged w @ [Fetching city, RequestError e]\<rparr>)"
    by (simp add: fetch_defs)
next
  assume a: "requests_get E (weather_url E city) = Inr r
      \<and> 400 \<le> status_code r \<and> status_code r < 600"
  then show "get_weather E city w =
          (Inr (PStr network_message),
           w\<lparr>fetched := fetched w @ [weather_url E city],
             logged := logged w @ [Fetching city, RequestError (HTTPError (status_code r))]\<rparr>)"
    by (simp add: fetch_defs)
  from a show "get_weather
            (E\<lparr>requests_get := (requests_get E)(weather_url E city := Inr (r\<lparr>json := body\<rparr>))\<rparr>)
            city w
          = get_weather E city w"
    by (simp add: fetch_defs weather_url_def)
next
  assume a: "requests_get E (weather_url E city) = Inr r
      \<and> \<not> (400 \<le> status_code r \<and> status_code r < 600)"
  let ?E = "E\<lparr>requests_get :=
                 (requests_get E)(weather_url E city := Inr (r\<lparr>status_code := 200\<rparr>))\<rparr>"
  have url: "weather_url ?E city = weather_url E city"
    by (simp add: weather_url_def)
  from a have "raise_for_status r = Inr ()"
    by (auto simp add: raise_for_status_def)
  moreover have "raise_for_status (r\<lparr>status_code := 200\<rparr>) = Inr ()"
    by (simp add: raise_for_status_def)
  moreover from a have "requests_get E (weather_url E city) = Inr r"
    by simp
  moreover have "extraction ?E = extraction E"
    by (simp add: fun_eq_iff extraction_def)
  ultimately have "script ?E city = script E city"
    by (simp add: script_def url thn_def split: sum.splits)
  then show "get_weather E city w = get_weather ?E city w"
    by (simp add: get_weather_script url)
qed

theorem get_weather_network_failure_witness:
  "is_RequestException Timeout
   \<and> get_weather (provider (Inl Timeout)) (Some ''Paris'') fresh
     = (Inr (PStr network_message),
        fresh\<lparr>fetched := [''http://api.openweathermap.org/data/2.5/weather?q=Paris&appid=KEY&units=metric''],
          logged := [Fetching (Some ''Paris''), RequestError Timeout]\<rparr>)
   \<and> get_weather (provider (answer 404 (PDict city_not_found))) (Some ''Paris'') fresh
     = (Inr (PStr network_message),
        fresh\<lparr>fetched := [''http://api.openweathermap.org/data/2.5/weather?q=Paris&appid=KEY&units=metric''],
          logged := [Fetching (Some ''Paris''), RequestError (HTTPError 404)]\<rparr>)
   \<and> \<not> (400 \<le> (300::nat) \<and> (300::nat) < 600)
   \<and> fst (get_weather (provider (answer 300 (PDict city_not_found))) (Some ''Paris'') fresh)
     = fst (get_weather (provider (answer 200 (PDict city_not_found))) (Some ''Paris'') fresh)"
  using get_weather_network_failure
      [of "provider (Inl Timeout)" "Some ''Paris''" Timeout fresh
          "\<lparr>status_code = 200, json = Inl ValueError\<rparr>" "Inl ValueError"]
    get_weather_network_failure
      [of "provider (answer 404 (PDict city_not_found))" "Some ''Paris''" Timeout fresh
          "\<lparr>status_code = 404, json = Inr (PDict city_not_found)\<rparr>" "Inl ValueError"]
    get_weather_network_failure
      [of "provider (answer 300 (PDict city_not_found))" "Some ''Paris''" Timeout fresh
          "\<lparr>status_code = 300, json = Inr (PDict city_not_found)\<rparr>" "Inl ValueError"]
  by (simp add: provider_def answer_def fresh_def weather_url_def fetch_defs
      city_not_found_def)

subsection \<open>C4: malformed success payloads\<close>

text \<open>
  As C4 is worded, every success payload with a malformed field gives the
  unexpected-failure message.  The readings are passed on as they come: a payload whose
  \<^verbatim>\<open>temp\<close> is the string \<^verbatim>\<open>"hot"\<close> is not well formed, and \<open>get_weather\<close> returns it as
  a success.
\<close>

theorem unchecked_temperature_counterexample:
  "py_eq_int (PInt 200) 200
   \<and> \<not> well_formed_payload (clear_sky (PInt 200) (PStr ''hot''))
   \<and> fst (get_weather (provider (answer 200 (PDict (clear_sky (PInt 200) (PStr ''hot'')))))
        (Some ''Paris'') fresh)
     = Inr (weather_info ''Clear sky'' (PStr ''hot'') (PInt 60))
   \<and> fst (get_weather (provider (answer 200 (PDict (clear_sky (PInt 200) (PStr ''hot'')))))
        (Some ''Paris'') fresh)
     \<noteq> Inr (PStr unexpected_message)"
  by (simp add: fetch_defs sample_defs well_formed_payload_def payload_shape_def)

text \<open>
  C4, amended.  \<open>get_weather\<close> never raises: it always returns a value.  For every
  object delivered on a 2xx response with \<^verbatim>\<open>cod\<close> equal to 200 that is not complete
  (\<^verbatim>\<open>weather\<close> missing, not a list or empty, its first element not an object with a
  string \<^verbatim>\<open>description\<close>, \<^verbatim>\<open>main\<close> missing or not an object, \<^verbatim>\<open>temp\<close> or \<^verbatim>\<open>humidity\<close>
  absent) it returns the unexpected-failure message.
\<close>

theorem get_weather_incomplete_payload:
  "(\<exists>v. fst (get_weather E city w) = Inr v)
  \<and> (requests_get E (weather_url E city) = Inr r \<and> 200 \<le> status_code r \<and> status_code r < 300
      \<and> json r = Inr (PDict kvs) \<and> map_of kvs ''cod'' = Some cod \<and> py_eq_int cod 200
      \<and> \<not> complete_payload kvs
    \<longrightarrow> fst (get_weather E city w) = Inr (PStr unexpected_message))"
proof (intro conjI impI)
  show "\<exists>v. fst (get_weather E city w) = Inr v"
    using get_weather_shape [of E city w] by auto
next
  assume a: "requests_get E (weather_url E city) = Inr r \<and> 200 \<le> status_code r
      \<and> status_code r < 300 \<and> json r = Inr (PDict kvs) \<and> map_of kvs ''cod'' = Some cod
      \<and> py_eq_int cod 200 \<and> \<not> complete_payload kvs"
  then obtain e where e: "extraction E (PDict kvs) = Inl e" "\<not> is_RequestException e"
    using extraction_incomplete [of kvs E] by blast
  from a have "script E city =
      thn (extraction E (PDict kvs)) (\<lambda>info. Inr (info, [WeatherData city info]))"
    using script_status_2xx [of E city r kvs] by (simp add: py_ne_int_def)
  with e show "fst (get_weather E city w) = Inr (PStr unexpected_message)"
    by (simp add: get_weather_script thn_def caught_def)
qed

text \<open>A payload with an empty \<^verbatim>\<open>weather\<close> list and no \<^verbatim>\<open>temp\<close>.\<close>

theorem get_weather_incomplete_payload_witness:
  "py_eq_int (PInt 200) 200
   \<and> \<not> complete_payload [(''cod'', PInt 200), (''weather'', PList []),
                           (''main'', PDict [(''humidity'', PInt 60)])]
   \<and> fst (get_weather
        (provider (answer 200 (PDict [(''cod'', PInt 200), (''weather'', PList []),
                                      (''main'', PDict [(''humidity'', PInt 60)])])))
        (Some ''Paris'') fresh)
     = Inr (PStr unexpected_message)"
  using get_weather_incomplete_payload
    [of "provider (answer 200 (PDict [(''cod'', PInt 200), (''weather'', PList []),
                                      (''main'', PDict [(''humidity'', PInt 60)])]))"
        "Some ''Paris''" fresh
        "\<lparr>status_code = 200, json = Inr (PDict [(''cod'', PInt 200), (''weather'', PList []),
                                      (''main'', PDict [(''humidity'', PInt 60)])])\<rparr>"
        "[(''cod'', PInt 200), (''weather'', PList []), (''main'', PDict [(''humidity'', PInt 60)])]"
        "PInt 200"]
  by (simp add: provider_def answer_def complete_payload_def payload_shape_def)

subsection \<open>C5: the location of the request\<close>

text \<open>
  As C5 is worded, a command without arguments under an unset default location requests
  the weather of the empty location.  The unset default is \<^verbatim>\<open>None\<close>, and the f-string
  writes it into the URL as the text \<^verbatim>\<open>None\<close>.
\<close>

theorem unset_location_counterexample:
  "DEFAULT_LOCATION (provider (Inl ConnectionError)) = None
   \<and> fetched (snd (weather (provider (Inl ConnectionError)) \<lparr>chat_id = 7, args = []\<rparr> fresh))
     = [''http://api.openweathermap.org/data/2.5/weather?q=None&appid=KEY&units=metric'']
   \<and> fetched (snd (weather (provider (Inl ConnectionError)) \<lparr>chat_id = 7, args = []\<rparr> fresh))
     \<noteq> [''http://api.openweathermap.org/data/2.5/weather?q=&appid=KEY&units=metric'']"
  by (simp add: run_defs sample_defs)

text \<open>
  C5, amended.  Every command issues exactly one request, with no early rejection; its
  location is the argument words joined with single spaces, or the configured default
  when there are no arguments.  The location stands in the URL as the query parameter
  \<^verbatim>\<open>q\<close>; an unset default stands there as the text \<^verbatim>\<open>None\<close>.
\<close>

theorem weather_location:
  "fetched (snd (weather E u w)) =
     fetched w @ [weather_url E (if args u = [] then DEFAULT_LOCATION E
                                 else Some (join '' '' (args u)))]
   \<and> join '' '' [a] = a
   \<and> join '' '' (a # b # rest) = a @ '' '' @ join '' '' (b # rest)
   \<and> weather_url E (Some location) =
       ''http://api.openweathermap.org/data/2.5/weather?q='' @ location
         @ ''&appid='' @ fstr (WEATHER_API_KEY E) @ ''&units=metric''
   \<and> weather_url E None =
       ''http://api.openweathermap.org/data/2.5/weather?q=None&appid=''
         @ fstr (WEATHER_API_KEY E) @ ''&units=metric''"
proof -
  define city where
    "city = (if args u \<noteq> [] then Some (join '' '' (args u)) else DEFAULT_LOCATION E)"
  from get_weather_shape [of E city w] obtain v w1 where
    run: "get_weather E city w = (Inr v, w1)"
    and frame: "fetched w1 = fetched w @ [weather_url E city]"
    and shape: "v = PStr (invalid_location_message city) \<or> v = PStr network_message
          \<or> v = PStr unexpected_message \<or> (\<exists>d t h. v = weather_info d t h)"
    by blast
  from shape consider (error) s where "v = PStr s"
    | (success) d t h where "v = weather_info d t h"
    by blast
  then have "fetched (snd (weather E u w)) = fetched w1"
  proof cases
    case error
    with weather_unfold [OF city_def run] show ?thesis
      by (simp add: reply_text_run split: option.splits)
  next
    case success
    then have "truthy v" "\<not> isinstance_str v"
      by (simp_all add: weather_info_def)
    with weather_unfold [OF city_def run] success show ?thesis
      by (simp add: render_and_send_run split: option.splits)
  qed
  with frame have "fetched (snd (weather E u w)) = fetched w @ [weather_url E city]"
    by simp
  moreover have "city = (if args u = [] then DEFAULT_LOCATION E else Some (join '' '' (args u)))"
    by (simp add: city_def)
  ultimately show ?thesis
    by (simp add: weather_url_def)
qed

theorem weather_location_witness:
  "fetched (snd (weather (provider (Inl Timeout)) \<lparr>chat_id = 7, args = [''New'', ''York'']\<rparr>
     fresh))
   = [''http://api.openweathermap.org/data/2.5/weather?q=New York&appid=KEY&units=metric'']"
  using weather_location
    [of "provider (Inl Timeout)" "\<lparr>chat_id = 7, args = [''New'', ''York'']\<rparr>" fresh]
  by (simp add: provider_def fresh_def weather_url_def)

subsection \<open>C6: one reply for every command\<close>

text \<open>
  As C6 is worded, every command gets exactly one reply and no error leaves the handler.
  The handler has no \<^verbatim>\<open>try\<close> block of its own: when the chat service rejects the reply,
  the exception leaves the handler and nothing has been sent, for a photo as for a text.
\<close>

theorem undelivered_reply_counterexample:
  "fst (weather (blocked (provider (answer 200 (PDict (clear_sky (PInt 200) (PFloat 18.5))))))
        \<lparr>chat_id = 7, args = [''Paris'']\<rparr> fresh) = Inl TelegramError
   \<and> sent (snd (weather
        (blocked (provider (answer 200 (PDict (clear_sky (PInt 200) (PFloat 18.5))))))
        \<lparr>chat_id = 7, args = [''Paris'']\<rparr> fresh)) = []
   \<and> fst (weather (blocked (provider (answer 200 (PDict city_not_found))))
        \<lparr>chat_id = 7, args = [''Nowhereistan'']\<rparr> fresh) = Inl TelegramError
   \<and> sent (snd (weather (blocked (provider (answer 200 (PDict city_not_found))))
        \<lparr>chat_id = 7, args = [''Nowhereistan'']\<rparr> fresh)) = []"
  by (simp add: run_defs sample_defs blocked_def)

text \<open>
  C6, amended.  \<open>get_weather\<close> always hands the handler a value.  When it is an error
  message, no chart is drawn and no file written, and the handler either returns having
  sent that text, unchanged, as its one reply, or raises what the chat service raised,
  having sent nothing.  When it is a success record, the handler either returns having
  written the chart and sent it as its one reply, a photo, or raises what the plotting
  library or the chat service raised, having sent nothing.  A text and a photo are never
  both sent.
\<close>

theorem weather_single_reply:
  assumes "city = (if args u \<noteq> [] then Some (join '' '' (args u)) else DEFAULT_LOCATION E)"
    and "weather E u w = (result, w2)"
  shows "\<exists>v w1. get_weather E city w = (Inr v, w1) \<and>
    (if isinstance_str v then
       files w2 = files w \<and> figures w2 = figures w \<and>
       (case result of
          Inr _ \<Rightarrow> sent w2 = sent w @ [Text (chat_id u) v]
        | Inl e \<Rightarrow> sent w2 = sent w \<and> telegram_rejects E (Text (chat_id u) v) = Some e)
     else
       (\<exists>d t h. v = weather_info d t h \<and>
         (case result of
            Inr _ \<Rightarrow>
              files w2 = (files w)(''weather.png'' \<mapsto> Png (weather_chart city t h))
              \<and> sent w2 = sent w @ [Photo (chat_id u) (Png (weather_chart city t h))]
          | Inl e \<Rightarrow>
              sent w2 = sent w
              \<and> (bar_rejects E [t, h] = Some e
                  \<or> savefig_rejects E ''weather.png'' (weather_chart city t h) = Some e
                  \<or> telegram_rejects E (Photo (chat_id u) (Png (weather_chart city t h)))
                      = Some e))))"
proof -
  from get_weather_shape [of E city w] obtain v w1 where
    run: "get_weather E city w = (Inr v, w1)"
    and frame: "files w1 = files w" "figures w1 = figures w" "sent w1 = sent w"
    and shape: "v = PStr (invalid_location_message city) \<or> v = PStr network_message
          \<or> v = PStr unexpected_message \<or> (\<exists>d t h. v = weather_info d t h)"
    by blast
  from shape consider (error) s where "v = PStr s"
    | (success) d t h where "v = weather_info d t h"
    by blast
  then show ?thesis
  proof cases
    case error
    with weather_unfold [OF assms(1) run] assms(2)
    have "reply_text E (chat_id u) v w1 = (result, w2)" by simp
    with error run frame show ?thesis
      by (auto simp add: reply_text_run split: option.splits)
  next
    case success
    then have "truthy v" "\<not> isinstance_str v"
      by (simp_all add: weather_info_def)
    with weather_unfold [OF assms(1) run] assms(2) success
    have "and_then (create_weather_graph E city (weather_info d t h)) (\<lambda>_.
            and_then (open_rb ''weather.png'') (\<lambda>photo. send_photo E (chat_id u) photo)) w1
          = (result, w2)" by simp
    with frame have
      "case result of
         Inr _ \<Rightarrow>
           files w2 = (files w)(''weather.png'' \<mapsto> Png (weather_chart city t h))
           \<and> sent w2 = sent w @ [Photo (chat_id u) (Png (weather_chart city t h))]
       | Inl e \<Rightarrow>
           sent w2 = sent w
           \<and> (bar_rejects E [t, h] = Some e
               \<or> savefig_rejects E ''weather.png'' (weather_chart city t h) = Some e
               \<or> telegram_rejects E (Photo (chat_id u) (Png (weather_chart city t h)))
                   = Some e)"
      by (auto simp add: render_and_send_run split: option.splits if_splits)
    with success have
      "\<exists>d t h. v = weather_info d t h \<and>
         (case result of
            Inr _ \<Rightarrow>
              files w2 = (files w)(''weather.png'' \<mapsto> Png (weather_chart city t h))
              \<and> sent w2 = sent w @ [Photo (chat_id u) (Png (weather_chart city t h))]
          | Inl e \<Rightarrow>
              sent w2 = sent w
              \<and> (bar_rejects E [t, h] = Some e
                  \<or> savefig_rejects E ''weather.png'' (weather_chart city t h) = Some e
                  \<or> telegram_rejects E (Photo (chat_id u) (Png (weather_chart city t h)))
                      = Some e))"
      by blast
    with run \<open>\<not> isinstance_str v\<close> show ?thesis by simp
  qed
qed

text \<open>The command \<^verbatim>\<open>/weather Paris\<close> under a clear sky: one reply, the photo of the chart.\<close>

theorem weather_single_reply_witness:
  "Some ''Paris'' =
     (if args \<lparr>chat_id = 7, args = [''Paris'']\<rparr> \<noteq> []
      then Some (join '' '' (args \<lparr>chat_id = 7, args = [''Paris'']\<rparr>))
      else DEFAULT_LOCATION (provider (answer 200 (PDict (clear_sky (PInt 200) (PFloat 18.5))))))
   \<and> fst (weather (provider (answer 200 (PDict (clear_sky (PInt 200) (PFloat 18.5)))))
        \<lparr>chat_id = 7, args = [''Paris'']\<rparr> fresh) = Inr ()
   \<and> sent (snd (weather (provider (answer 200 (PDict (clear_sky (PInt 200) (PFloat 18.5)))))
        \<lparr>chat_id = 7, args = [''Paris'']\<rparr> fresh))
     = [Photo 7 (Png (weather_chart (Some ''Paris'') (PFloat 18.5) (PInt 60)))]"
  using weather_single_reply
    [of "Some ''Paris''" "\<lparr>chat_id = 7, args = [''Paris'']\<rparr>"
        "provider (answer 200 (PDict (clear_sky (PInt 200) (PFloat 18.5))))" fresh
        "fst (weather (provider (answer 200 (PDict (clear_sky (PInt 200) (PFloat 18.5)))))
           \<lparr>chat_id = 7, args = [''Paris'']\<rparr> fresh)"
        "snd (weather (provider (answer 200 (PDict (clear_sky (PInt 200) (PFloat 18.5)))))
           \<lparr>chat_id = 7, args = [''Paris'']\<rparr> fresh)"]
  by (simp add: run_defs sample_defs weather_chart_def)

subsection \<open>C7: drawing a well-formed result\<close>

text \<open>
  As C7 is worded, \<open>create_weather_graph\<close> raises for no well-formed result.  It hands
  the readings to the plotting library as they are, and the library does not take every
  finite number: for the integer temperature \<open>2 ^ 63\<close> drawing the bars raises
  \<^verbatim>\<open>OverflowError\<close>, which \<open>create_weather_graph\<close> lets through, and no file is written.
\<close>

theorem overflowing_temperature_counterexample:
  "is_number (PInt 9223372036854775808) \<and> percentage (PInt 60)
   \<and> fst (create_weather_graph (plotting_limits (provider (Inl Timeout))) (Some ''Paris'')
        (weather_info ''Clear sky'' (PInt 9223372036854775808) (PInt 60)) fresh)
     = Inl OverflowError
   \<and> files (snd (create_weather_graph (plotting_limits (provider (Inl Timeout)))
        (Some ''Paris'') (weather_info ''Clear sky'' (PInt 9223372036854775808) (PInt 60))
        fresh)) ''weather.png''
     = None"
  by (simp add: plt_defs io_defs thn_def weather_info_def plotting_limits_def provider_def
      fresh_def)

text \<open>
  C7, amended.  For every result with a temperature and a humidity, so for every
  well-formed one, \<open>create_weather_graph\<close> raises nothing of its own: it raises exactly
  when the plotting library raises on drawing the bars or on saving the figure, and then
  that exception, with no file written.  When the library raises nothing it returns, and
  all it changes is the file \<^verbatim>\<open>weather.png\<close>, which then holds the chart: the figure it
  opened is closed again, nothing is sent, requested or logged.
\<close>

theorem create_weather_graph_outcome:
  assumes "map_of kvs ''temperature'' = Some t" and "map_of kvs ''humidity'' = Some h"
  shows "create_weather_graph E city (PDict kvs) w =
     (case bar_rejects E [t, h] of
        Some e \<Rightarrow> (Inl e, w\<lparr>figures := default_figure\<lparr>figsize := (8, 6)\<rparr> # figures w\<rparr>)
      | None \<Rightarrow>
         (case savefig_rejects E ''weather.png'' (weather_chart city t h) of
            Some e \<Rightarrow> (Inl e, w\<lparr>figures := weather_chart city t h # figures w\<rparr>)
          | None \<Rightarrow>
              (Inr (),
               w\<lparr>files := (files w)(''weather.png'' \<mapsto> Png (weather_chart city t h))\<rparr>)))"
  using assms
  by (simp add: plt_defs io_defs thn_def weather_chart_def split: option.splits)

text \<open>
  Snow over Oslo at 12.5 degrees below zero and 100 percent, with a library that raises
  nothing.
\<close>

theorem create_weather_graph_outcome_witness:
  "is_number (PFloat (- 12.5)) \<and> percentage (PInt 100)
   \<and> create_weather_graph (provider (Inl Timeout)) (Some ''Oslo'')
        (weather_info ''Snow'' (PFloat (- 12.5)) (PInt 100)) fresh
     = (Inr (), fresh\<lparr>files := [''weather.png'' \<mapsto>
          Png \<lparr>figsize = (8, 6),
               bars = [(''Temperature'', PFloat (- 12.5), ''skyblue''),
                       (''Humidity'', PInt 100, ''lightgreen'')],
               title = ''Weather in Oslo'', ylabel = ''Values''\<rparr>]\<rparr>)"
  using create_weather_graph_outcome
    [of "[(''description'', PStr ''Snow''), (''temperature'', PFloat (- 12.5)),
          (''humidity'', PInt 100)]" "PFloat (- 12.5)" "PInt 100"
        "provider (Inl Timeout)" "Some ''Oslo''" fresh]
  by (simp add: weather_info_def weather_chart_def fresh_def provider_def)

subsection \<open>C8: one file, the last chart\<close>

text \<open>
  As C8 is worded, after any two calls the path holds the chart of the second result.
  When the second call raises, the file keeps the first chart: so after a clear sky over
  Paris and then rain over a location named \<^verbatim>\<open>$$\<close>, whose title the library cannot
  render.
\<close>

theorem failed_overwrite_counterexample:
  "fst (create_weather_graph (plotting_limits (provider (Inl Timeout))) (Some ''Paris'')
          (weather_info ''Clear sky'' (PFloat 18.5) (PInt 60)) fresh)
     = Inr ()
   \<and> fst (create_weather_graph (plotting_limits (provider (Inl Timeout))) (Some ''$$'')
          (weather_info ''Rain'' (PInt 3) (PInt 95))
          (snd (create_weather_graph (plotting_limits (provider (Inl Timeout)))
             (Some ''Paris'') (weather_info ''Clear sky'' (PFloat 18.5) (PInt 60)) fresh)))
     = Inl ValueError
   \<and> files (snd (create_weather_graph (plotting_limits (provider (Inl Timeout)))
          (Some ''$$'') (weather_info ''Rain'' (PInt 3) (PInt 95))
          (snd (create_weather_graph (plotting_limits (provider (Inl Timeout)))
             (Some ''Paris'') (weather_info ''Clear sky'' (PFloat 18.5) (PInt 60)) fresh))))
       ''weather.png''
     = Some (Png (weather_chart (Some ''Paris'') (PFloat 18.5) (PInt 60)))
   \<and> weather_chart (Some ''Paris'') (PFloat 18.5) (PInt 60)
     \<noteq> weather_chart (Some ''$$'') (PInt 3) (PInt 95)"
  by (simp add: plt_defs io_defs thn_def weather_info_def weather_chart_def
      plotting_limits_def provider_def fresh_def)

text \<open>
  C8, amended.  \<open>create_weather_graph\<close> writes to the one path \<^verbatim>\<open>weather.png\<close>,
  whatever the location and the result, and never deletes the file: through any two
  calls every other file stays as it was.  A call that returns has replaced what the path
  held by its chart and left it there; a call that raises has written nothing.  So after
  two calls the path holds the chart of the second result when the second call returned,
  the chart of the first when only the first returned, and what it held before when
  neither did.
\<close>

theorem create_weather_graph_single_file:
  "(let first = create_weather_graph E city1 (weather_info d1 t1 h1) w;
        second = create_weather_graph E city2 (weather_info d2 t2 h2) (snd first)
    in (\<forall>path. path \<noteq> ''weather.png'' \<longrightarrow>
          files (snd first) path = files w path \<and> files (snd second) path = files w path)
       \<and> files (snd first) ''weather.png'' =
           (case fst first of
              Inr _ \<Rightarrow> Some (Png (weather_chart city1 t1 h1))
            | Inl e \<Rightarrow> files w ''weather.png'')
       \<and> files (snd second) ''weather.png'' =
           (case fst second of
              Inr _ \<Rightarrow> Some (Png (weather_chart city2 t2 h2))
            | Inl e \<Rightarrow>
                (case fst first of
                   Inr _ \<Rightarrow> Some (Png (weather_chart city1 t1 h1))
                 | Inl e' \<Rightarrow> files w ''weather.png'')))"
proof -
  have one: "files (snd (create_weather_graph E city (weather_info d t h) v)) =
     (case fst (create_weather_graph E city (weather_info d t h) v) of
        Inl e \<Rightarrow> files v
      | Inr _ \<Rightarrow> (files v)(''weather.png'' \<mapsto> Png (weather_chart city t h)))"
    for city d t h v
    unfolding weather_info_def by (rule create_weather_graph_files) simp_all
  show ?thesis
    by (simp add: Let_def one split: sum.splits)
qed

text \<open>A clear sky over Paris, then rain over Oslo: the file shows Oslo.\<close>

theorem create_weather_graph_single_file_witness:
  "fst (create_weather_graph (provider (Inl Timeout)) (Some ''Oslo'')
          (weather_info ''Rain'' (PInt 3) (PInt 95))
          (snd (create_weather_graph (provider (Inl Timeout)) (Some ''Paris'')
             (weather_info ''Clear sky'' (PFloat 18.5) (PInt 60)) fresh)))
     = Inr ()
   \<and> files (snd (create_weather_graph (provider (Inl Timeout)) (Some ''Oslo'')
               (weather_info ''Rain'' (PInt 3) (PInt 95))
               (snd (create_weather_graph (provider (Inl Timeout)) (Some ''Paris'')
                  (weather_info ''Clear sky'' (PFloat 18.5) (PInt 60)) fresh))))
     = [''weather.png'' \<mapsto> Png (weather_chart (Some ''Oslo'') (PInt 3) (PInt 95))]
   \<and> weather_chart (Some ''Oslo'') (PInt 3) (PInt 95)
       \<noteq> weather_chart (Some ''Paris'') (PFloat 18.5) (PInt 60)"
  using create_weather_graph_single_file
    [of "provider (Inl Timeout)" "Some ''Paris''" "''Clear sky''" "PFloat 18.5" "PInt 60"
        fresh "Some ''Oslo''" "''Rain''" "PInt 3" "PInt 95"]
  by (simp add: plt_defs io_defs thn_def weather_info_def weather_chart_def provider_def
      fresh_def Let_def)

subsection \<open>C9: what \<open>get_weather\<close> can return\<close>

text \<open>
  C9.  \<open>get_weather\<close> always returns, and what it returns is one of the three error
  messages (the invalid-location message for the queried location, the network message,
  the unexpected-failure message) or a record with exactly the keys \<^verbatim>\<open>description\<close>,
  \<^verbatim>\<open>temperature\<close> and \<^verbatim>\<open>humidity\<close>, which is not empty and so not falsy.  The handler's
  test, falsy or a string, is true of each error message and false of each record: an
  error message is replied as text and never passed to the renderer, a record is passed
  to the renderer and never replied as text.
\<close>

theorem get_weather_outcomes:
  assumes "city = (if args u \<noteq> [] then Some (join '' '' (args u)) else DEFAULT_LOCATION E)"
  shows "\<exists>v w1. get_weather E city w = (Inr v, w1) \<and>
     ((v \<in> {PStr (invalid_location_message city), PStr network_message,
              PStr unexpected_message}
        \<and> (\<not> truthy v \<or> isinstance_str v)
        \<and> weather E u w = reply_text E (chat_id u) v w1)
      \<or> ((\<exists>d t h. v = PDict [(''description'', PStr d), (''temperature'', t),
                               (''humidity'', h)])
        \<and> truthy v \<and> \<not> (\<not> truthy v \<or> isinstance_str v)
        \<and> weather E u w =
            and_then (create_weather_graph E city v) (\<lambda>_.
            and_then (open_rb ''weather.png'') (\<lambda>photo.
            send_photo E (chat_id u) photo)) w1))"
proof -
  from get_weather_shape [of E city w] obtain v w1 where
    run: "get_weather E city w = (Inr v, w1)"
    and shape: "v = PStr (invalid_location_message city) \<or> v = PStr network_message
          \<or> v = PStr unexpected_message \<or> (\<exists>d t h. v = weather_info d t h)"
    by blast
  from shape consider
      (error) "v \<in> {PStr (invalid_location_message city), PStr network_message,
                     PStr unexpected_message}"
    | (success) d t h where "v = weather_info d t h"
    by blast
  then show ?thesis
  proof cases
    case error
    then have "isinstance_str v" by auto
    with error run weather_unfold [OF assms run] show ?thesis by simp
  next
    case success
    then have "truthy v" "\<not> isinstance_str v"
      by (simp_all add: weather_info_def)
    with success run weather_unfold [OF assms run] show ?thesis
      by (simp add: weather_info_def)
  qed
qed

theorem get_weather_outcomes_witness:
  "\<exists>v w1. get_weather (provider (answer 200 (PDict (clear_sky (PInt 200) (PFloat 18.5)))))
             (Some ''Paris'') fresh = (Inr v, w1)
     \<and> v = PDict [(''description'', PStr ''Clear sky''), (''temperature'', PFloat 18.5),
                   (''humidity'', PInt 60)]
     \<and> truthy v \<and> \<not> isinstance_str v"
  using get_weather_outcomes
    [of "Some ''Paris''" "\<lparr>chat_id = 7, args = [''Paris'']\<rparr>"
        "provider (answer 200 (PDict (clear_sky (PInt 200) (PFloat 18.5))))" fresh]
  by (simp add: fetch_defs sample_defs)

subsection \<open>C10: the comparison of the status field\<close>

text \<open>
  C10.  On a 2xx response with an object payload, \<open>get_weather\<close> takes the
  invalid-location branch exactly when the \<^verbatim>\<open>cod\<close> field (\<^verbatim>\<open>None\<close> when absent) is not
  equal to the integer 200, whatever the rest of the payload: so for the string
  \<^verbatim>\<open>"200"\<close>, which no conversion makes equal to a number, and for an absent field.
  Equality is that of the language, by value between numbers.
\<close>

theorem get_weather_status_field:
  assumes "requests_get E (weather_url E city) = Inr r"
    and "200 \<le> status_code r" and "status_code r < 300"
    and "json r = Inr (PDict kvs)"
  shows "(fst (get_weather E city w) = Inr (PStr (invalid_location_message city))
           \<longleftrightarrow> \<not> py_eq_int (case map_of kvs ''cod'' of None \<Rightarrow> PNone | Some c \<Rightarrow> c) 200)
       \<and> (map_of kvs ''cod'' = Some (PStr ''200'')
           \<longrightarrow> fst (get_weather E city w) = Inr (PStr (invalid_location_message city)))
       \<and> (map_of kvs ''cod'' = None
           \<longrightarrow> fst (get_weather E city w) = Inr (PStr (invalid_location_message city)))"
proof -
  let ?cod = "case map_of kvs ''cod'' of None \<Rightarrow> PNone | Some c \<Rightarrow> c"
  have ne: "py_ne_int ?cod 200 \<Longrightarrow>
      fst (get_weather E city w) = Inr (PStr (invalid_location_message city))"
    using script_status_2xx [OF assms] by (simp add: get_weather_script)
  have eq: "fst (get_weather E city w) \<noteq> Inr (PStr (invalid_location_message city))"
    if "py_eq_int ?cod 200"
  proof (cases "extraction E (PDict kvs)")
    case (Inl e)
    with that script_status_2xx [OF assms] extraction_raises [OF Inl] show ?thesis
      by (simp add: get_weather_script py_ne_int_def thn_def caught_def
          invalid_location_message_def unexpected_message_def)
  next
    case (Inr v)
    with that script_status_2xx [OF assms] extraction_returns [OF Inr] show ?thesis
      by (auto simp add: get_weather_script py_ne_int_def thn_def weather_info_def)
  qed
  from ne eq show ?thesis
    by (auto simp add: py_ne_int_def)
qed

text \<open>The payload of a clear sky whose status field is the string \<^verbatim>\<open>"200"\<close>.\<close>

theorem get_weather_status_field_witness:
  "fst (get_weather (provider (answer 200 (PDict (clear_sky (PStr ''200'') (PFloat 18.5)))))
        (Some ''Paris'') fresh)
     = Inr (PStr ''Unable to fetch weather for Paris. Please check the city name and try again.'')
   \<and> \<not> py_eq_int (PStr ''200'') 200"
  using get_weather_status_field
    [of "provider (answer 200 (PDict (clear_sky (PStr ''200'') (PFloat 18.5))))" "Some ''Paris''"
        "\<lparr>status_code = 200, json = Inr (PDict (clear_sky (PStr ''200'') (PFloat 18.5)))\<rparr>"
        "clear_sky (PStr ''200'') (PFloat 18.5)" fresh]
  by (simp add: provider_def answer_def clear_sky_def invalid_location_message_def)

end
